theory Spec2Isabelle
  imports Main
begin

section \<open>Data model\<close>

text \<open>
  The module \<^verbatim>\<open>dbt_dry_run/node_runner/model_runner.py\<close> imports its data types from
  \<^verbatim>\<open>dbt_dry_run.models\<close>, \<^verbatim>\<open>dbt_dry_run.manifest\<close> and \<^verbatim>\<open>dbt_dry_run.exception\<close>.
  Their declarations are modelled here with the attributes the runner reads.
\<close>

text \<open>Modelled from the spec: \<^verbatim>\<open>DryRunStatus\<close>, the enum of section 3 with the two
  members \<^verbatim>\<open>SUCCESS\<close> and \<^verbatim>\<open>FAILURE\<close>.\<close>

datatype dry_run_status = SUCCESS | FAILURE

text \<open>Modelled from the spec: \<^verbatim>\<open>OnSchemaChange\<close>, the four policies of section 4.3, which
  are the four keys of \<^verbatim>\<open>ON_SCHEMA_CHANGE_TABLE_HANDLER\<close>.\<close>

datatype on_schema_change = IGNORE | APPEND_NEW_COLUMNS | SYNC_ALL_COLUMNS | FAIL

text \<open>
  The two messages of the module are Python f-strings. An f-string is kept as the sequence
  of its pieces: the literal text, and each interpolated value with the kind of value it
  is (a \<^verbatim>\<open>str\<close>, printed as itself; a list of \<^verbatim>\<open>str\<close>; a set of \<^verbatim>\<open>str\<close>, whose printed
  order of elements depends on the interpreter's string hashing).
\<close>

datatype fragment =
    Lit string
  | StrValue string
  | ListValue "string list"
  | SetValue "string set"

type_synonym message = "fragment list"

text \<open>Modelled from the spec: the error taxonomy of section 7. \<^verbatim>\<open>KeyError\<close> is the
  exception the source raises for a missing dependency graph; \<^verbatim>\<open>EngineException\<close> stands
  for the opaque errors that \<^verbatim>\<open>SqlRunner.query\<close> hands back.\<close>

datatype exception =
    KeyError message
  | UpstreamFailedException message
  | SchemaChangeException message
  | EngineException string

text \<open>Modelled from the spec: \<^verbatim>\<open>Node\<close> (section 3) with the attributes the runner reads:
  \<^verbatim>\<open>node.config.materialized\<close>, \<^verbatim>\<open>node.config.on_schema_change\<close> (optional),
  \<^verbatim>\<open>node.depends_on.deep_nodes\<close> (optional), and the identifier, target triple and
  compiled SQL. The attribute \<^verbatim>\<open>alias\<close> is the field \<open>node_alias\<close> here.\<close>

record node_config =
  materialized :: string
  on_schema_change :: "on_schema_change option"

record depends_on =
  deep_nodes :: "string list option"

record node =
  unique_id :: string
  database :: string
  db_schema :: string
  node_alias :: string
  compiled_sql :: string
  config :: node_config
  depends_on :: depends_on

text \<open>Modelled from the spec: a \<^verbatim>\<open>Field\<close> entry of a table (a name and a type), and
  \<^verbatim>\<open>Table\<close>, an ordered sequence of fields. The runner reads \<^verbatim>\<open>field.name\<close> and
  \<^verbatim>\<open>table.fields\<close> only. Nothing makes the names of a table distinct. The conditions
  \<^verbatim>\<open>if target_table\<close> and \<^verbatim>\<open>if r.table\<close> of the runner are tests of presence ("if a live
  schema exists", "has a known predicted Table"): a table without fields is still a
  table.\<close>

datatype field = Field (name: string) (field_type: string)

datatype table = Table (fields: "field list")

text \<open>Modelled from the spec: \<^verbatim>\<open>DryRunResult\<close>, the immutable record of section 3, built
  positionally as \<^verbatim>\<open>DryRunResult(node, table, status, exception)\<close>.\<close>

datatype dry_run_result =
  DryRunResult (node: node) (table: "table option") (status: dry_run_status)
    (exception: "exception option")

text \<open>Modelled from the spec: \<^verbatim>\<open>DryRunResult.replace_table\<close>, "a new DryRunResult with the
  same node/status/exception but a different Table".\<close>

definition replace_table :: "dry_run_result \<Rightarrow> table \<Rightarrow> dry_run_result" where
  "replace_table r t = DryRunResult (node r) (Some t) (status r) (exception r)"

section \<open>Python dictionaries and sets\<close>

text \<open>
  A Python \<^verbatim>\<open>dict\<close> keeps its keys in insertion order. Storing under a key that is present
  replaces the value where the key stands; storing under a new key appends the entry.
\<close>

type_synonym ('k, 'v) dict = "('k \<times> 'v) list"

fun dict_setitem :: "('k, 'v) dict \<Rightarrow> 'k \<Rightarrow> 'v \<Rightarrow> ('k, 'v) dict" where
  "dict_setitem [] k v = [(k, v)]"
| "dict_setitem ((k', v') # d) k v =
     (if k' = k then (k, v) # d else (k', v') # dict_setitem d k v)"

text \<open>\<^verbatim>\<open>{field.name: field for field in fs}\<close>: the entries are stored one after the other,
  starting from the empty dictionary.\<close>

fun dict_of_fields :: "(string, field) dict \<Rightarrow> field list \<Rightarrow> (string, field) dict" where
  "dict_of_fields d [] = d"
| "dict_of_fields d (f # fs) = dict_of_fields (dict_setitem d (name f) f) fs"

text \<open>\<^verbatim>\<open>d.update(other)\<close> stores the entries of \<^verbatim>\<open>other\<close> in their order.\<close>

fun dict_update :: "('k, 'v) dict \<Rightarrow> ('k, 'v) dict \<Rightarrow> ('k, 'v) dict" where
  "dict_update d [] = d"
| "dict_update d ((k, v) # other) = dict_update (dict_setitem d k v) other"

definition dict_values :: "('k, 'v) dict \<Rightarrow> 'v list" where
  "dict_values d = map snd d"

text \<open>\<^verbatim>\<open>a or b\<close> on two sets: the first operand when it is non-empty, else the second.\<close>

definition set_or :: "'a set \<Rightarrow> 'a set \<Rightarrow> 'a set" where
  "set_or a b = (if a \<noteq> {} then a else b)"

section \<open>The schema-change handlers\<close>

definition ignore_handler :: "dry_run_result \<Rightarrow> table \<Rightarrow> dry_run_result" where
  "ignore_handler dry_run_result target_table = replace_table dry_run_result target_table"

definition append_new_columns_handler :: "dry_run_result \<Rightarrow> table \<Rightarrow> dry_run_result" where
  "append_new_columns_handler dry_run_result target_table =
     (case table dry_run_result of
        None \<Rightarrow> dry_run_result
      | Some predicted \<Rightarrow>
          (let mapped_predicted_table = dict_of_fields [] (fields predicted);
               mapped_target_table = dict_of_fields [] (fields target_table);
               merged = dict_update mapped_predicted_table mapped_target_table
           in replace_table dry_run_result (Table (dict_values merged))))"

definition sync_all_columns_handler :: "dry_run_result \<Rightarrow> table \<Rightarrow> dry_run_result" where
  "sync_all_columns_handler dry_run_result target_table = dry_run_result"

definition schema_change_msg :: "string set \<Rightarrow> string set \<Rightarrow> message" where
  "schema_change_msg added_fields removed_fields =
     [Lit ''Incremental model has changed schemas. '',
      Lit ''Fields added: '', SetValue added_fields,
      Lit '', Fields removed: '', SetValue removed_fields]"

definition fail_handler :: "dry_run_result \<Rightarrow> table \<Rightarrow> dry_run_result" where
  "fail_handler dry_run_result target_table =
     (case table dry_run_result of
        None \<Rightarrow> dry_run_result
      | Some predicted \<Rightarrow>
          (let predicted_table_field_names = set (map name (fields predicted));
               target_table_field_names = set (map name (fields target_table));
               added_fields = predicted_table_field_names - target_table_field_names;
               removed_fields = target_table_field_names - predicted_table_field_names;
               schema_changed = set_or added_fields removed_fields
           in if schema_changed \<noteq> {}
              then DryRunResult (node dry_run_result) None FAILURE
                     (Some (SchemaChangeException (schema_change_msg added_fields removed_fields)))
              else DryRunResult (node dry_run_result) (Some target_table)
                     (status dry_run_result) (exception dry_run_result)))"

fun ON_SCHEMA_CHANGE_TABLE_HANDLER ::
  "on_schema_change \<Rightarrow> dry_run_result \<Rightarrow> table \<Rightarrow> dry_run_result" where
  "ON_SCHEMA_CHANGE_TABLE_HANDLER IGNORE = ignore_handler"
| "ON_SCHEMA_CHANGE_TABLE_HANDLER APPEND_NEW_COLUMNS = append_new_columns_handler"
| "ON_SCHEMA_CHANGE_TABLE_HANDLER SYNC_ALL_COLUMNS = sync_all_columns_handler"
| "ON_SCHEMA_CHANGE_TABLE_HANDLER FAIL = fail_handler"

section \<open>The model runner\<close>

text \<open>Modelled from the spec: \<^verbatim>\<open>ResultStore\<close>, the mapping from node identifier to
  \<^verbatim>\<open>DryRunResult\<close>. The runner tests \<^verbatim>\<open>n in self._results.keys()\<close> and reads
  \<^verbatim>\<open>self._results.get_result(n)\<close>.\<close>

type_synonym result_store = "string \<rightharpoonup> dry_run_result"

text \<open>
  \<^verbatim>\<open>SqlRunner\<close> is an external collaborator: both of its methods are parameters of the
  model. Each may read and change the state \<open>'s\<close> of the engine, so nothing is assumed of
  what it answers. The calls the runner makes are recorded, in order, as \<open>sql_call\<close>s.
\<close>

datatype 's sql_runner =
  SqlRunner
    (query: "string \<Rightarrow> 's \<Rightarrow> (dry_run_status \<times> table option \<times> exception option) \<times> 's")
    (get_node_schema: "node \<Rightarrow> 's \<Rightarrow> table option \<times> 's")

datatype sql_call = Query string | GetNodeSchema node

text \<open>\<^verbatim>\<open>[self._results.get_result(n) for n in deep_nodes if n in self._results.keys()]\<close>\<close>

fun resolve_results :: "result_store \<Rightarrow> string list \<Rightarrow> dry_run_result list" where
  "resolve_results results [] = []"
| "resolve_results results (n # ns) =
     (case results n of
        None \<Rightarrow> resolve_results results ns
      | Some r \<Rightarrow> r # resolve_results results ns)"

text \<open>
  The loop over \<^verbatim>\<open>completed_upstreams\<close>. \<^verbatim>\<open>replace_upstream_sql\<close> lives in
  \<^verbatim>\<open>dbt_dry_run.literals\<close> and is a parameter. \<^verbatim>\<open>cast(Table, upstream.table)\<close> does nothing
  at run time; the list it walks holds only results with a table.
\<close>

fun substitute_upstreams ::
  "(string \<Rightarrow> node \<Rightarrow> table \<Rightarrow> string) \<Rightarrow> string \<Rightarrow> dry_run_result list \<Rightarrow> string" where
  "substitute_upstreams replace_upstream_sql node_new_sql [] = node_new_sql"
| "substitute_upstreams replace_upstream_sql node_new_sql (upstream # rest) =
     substitute_upstreams replace_upstream_sql
       (replace_upstream_sql node_new_sql (node upstream) (the (table upstream))) rest"

definition missing_deep_nodes_msg :: "node \<Rightarrow> message" where
  "missing_deep_nodes_msg nd =
     [Lit ''deep_nodes have not been created for '', StrValue (unique_id nd)]"

definition upstream_failed_msg :: "node \<Rightarrow> dry_run_result list \<Rightarrow> message" where
  "upstream_failed_msg nd failed_upstreams =
     [Lit (''Can'' @ [CHR 0x27] @ ''t insert SELECT literals for ''), StrValue (unique_id nd),
      Lit '' because '', ListValue (map (\<lambda>f. unique_id (node f)) failed_upstreams),
      Lit '' failed'']"

text \<open>\<^verbatim>\<open>ModelRunner._insert_dependant_sql_literals\<close>: \<open>Inl\<close> of the exception it raises, or
  \<open>Inr\<close> of the SQL it returns.\<close>

definition insert_dependant_sql_literals ::
  "(string \<Rightarrow> node \<Rightarrow> table \<Rightarrow> string) \<Rightarrow> result_store \<Rightarrow> node \<Rightarrow> exception + string" where
  "insert_dependant_sql_literals replace_upstream_sql results nd =
     (case deep_nodes (depends_on nd) of
        None \<Rightarrow> Inl (KeyError (missing_deep_nodes_msg nd))
      | Some ds \<Rightarrow>
          (let rs = resolve_results results ds;
               failed_upstreams = filter (\<lambda>r. status r \<noteq> SUCCESS) rs
           in if failed_upstreams \<noteq> []
              then Inl (UpstreamFailedException (upstream_failed_msg nd failed_upstreams))
              else (let completed_upstreams = filter (\<lambda>r. table r \<noteq> None) rs
                    in Inr (substitute_upstreams replace_upstream_sql (compiled_sql nd)
                              completed_upstreams))))"

text \<open>The statement that wraps the SQL of a view; the three names stand between
  backquotes (character 0x60), the SQL between two newlines.\<close>

definition backquoted :: "string \<Rightarrow> string" where
  "backquoted x = [CHR 0x60] @ x @ [CHR 0x60]"

definition create_view_sql :: "node \<Rightarrow> string \<Rightarrow> string" where
  "create_view_sql nd run_sql =
     ''CREATE OR REPLACE VIEW '' @ backquoted (database nd) @ ''.'' @ backquoted (db_schema nd)
       @ ''.'' @ backquoted (node_alias nd) @ '' AS ('' @ [CHR 0x0A] @ run_sql @ [CHR 0x0A] @ '')''"

text \<open>
  \<^verbatim>\<open>ModelRunner.run\<close>. The result is \<open>Inl\<close> of the exception that leaves the method, or
  \<open>Inr\<close> of the returned \<^verbatim>\<open>DryRunResult\<close>; with it come the calls made to the
  \<^verbatim>\<open>SqlRunner\<close> and the state of the engine afterwards. Only \<^verbatim>\<open>UpstreamFailedException\<close>
  is caught.
\<close>

definition run ::
  "(string \<Rightarrow> node \<Rightarrow> table \<Rightarrow> string) \<Rightarrow> 's sql_runner \<Rightarrow> result_store \<Rightarrow> node \<Rightarrow> 's
     \<Rightarrow> (exception + dry_run_result) \<times> sql_call list \<times> 's" where
  "run replace_upstream_sql sr results nd s =
     (case insert_dependant_sql_literals replace_upstream_sql results nd of
        Inl e \<Rightarrow>
          (case e of
             UpstreamFailedException m \<Rightarrow> (Inr (DryRunResult nd None FAILURE (Some e)), [], s)
           | _ \<Rightarrow> (Inl e, [], s))
      | Inr sql \<Rightarrow>
          (let run_sql = (if materialized (config nd) = ''view''
                          then create_view_sql nd sql else sql);
               ((status', predicted_table, exception'), s1) = query sr run_sql s;
               result = DryRunResult nd predicted_table status' exception'
           in if status result = SUCCESS \<and> materialized (config nd) = ''incremental''
              then (let (target_table, s2) = get_node_schema sr nd s1
                    in (case target_table of
                          None \<Rightarrow> (Inr result, [Query run_sql, GetNodeSchema nd], s2)
                        | Some tt \<Rightarrow>
                            (let on_schema_change' =
                                   (case on_schema_change (config nd) of
                                      None \<Rightarrow> IGNORE
                                    | Some p \<Rightarrow> p);
                                 handler = ON_SCHEMA_CHANGE_TABLE_HANDLER on_schema_change'
                             in (Inr (handler result tt),
                                 [Query run_sql, GetNodeSchema nd], s2))))
              else (Inr result, [Query run_sql], s1)))"

section \<open>The reconciliation of section 4.3 in the spec's words\<close>

text \<open>
  AppendNewColumns as the spec describes its result: the predicted fields in their order,
  each replaced by the target field of the same name when there is one, then the fields
  of the target whose name the predicted table does not have.
\<close>

definition spec_append_new_columns :: "field list \<Rightarrow> field list \<Rightarrow> field list" where
  "spec_append_new_columns predicted target =
     map (\<lambda>f. case find (\<lambda>g. name g = name f) target of None \<Rightarrow> f | Some g \<Rightarrow> g) predicted
     @ filter (\<lambda>g. name g \<notin> set (map name predicted)) target"

text \<open>Auxiliary for the proofs: a dictionary entry with its value replaced by the target
  field of the same name, when the target has one.\<close>

fun overlay :: "field list \<Rightarrow> string \<times> field \<Rightarrow> string \<times> field" where
  "overlay tgt (k, v) = (k, case find (\<lambda>g. name g = k) tgt of None \<Rightarrow> v | Some g \<Rightarrow> g)"

section \<open>Example pipeline\<close>

text \<open>
  The scenario of section 8 of the spec: the view \<^verbatim>\<open>stg_orders\<close> without upstreams, and the
  incremental model \<^verbatim>\<open>fct_orders\<close> that reads it under the policy APPEND_NEW_COLUMNS.
\<close>

definition order_id :: field where
  "order_id = Field ''order_id'' ''INT64''"

definition amount :: field where
  "amount = Field ''amount'' ''NUMERIC''"

definition stg_orders :: node where
  "stg_orders =
     \<lparr>unique_id = ''model.shop.stg_orders'', database = ''analytics'', db_schema = ''staging'',
      node_alias = ''stg_orders'', compiled_sql = ''SELECT order_id, amount FROM raw.orders'',
      config = \<lparr>materialized = ''view'', on_schema_change = None\<rparr>,
      depends_on = \<lparr>deep_nodes = Some []\<rparr>\<rparr>"

definition fct_orders :: node where
  "fct_orders =
     \<lparr>unique_id = ''model.shop.fct_orders'', database = ''analytics'', db_schema = ''marts'',
      node_alias = ''fct_orders'', compiled_sql = ''SELECT * FROM stg_orders'',
      config = \<lparr>materialized = ''incremental'', on_schema_change = Some APPEND_NEW_COLUMNS\<rparr>,
      depends_on = \<lparr>deep_nodes = Some [''model.shop.stg_orders'', ''model.shop.not_run'']\<rparr>\<rparr>"

text \<open>An engine that accepts every query with the schema \<^verbatim>\<open>{order_id, amount}\<close>, whose
  live table has the column \<^verbatim>\<open>order_id\<close> only, and that counts the calls it receives.\<close>

definition example_sql_runner :: "nat sql_runner" where
  "example_sql_runner =
     SqlRunner (\<lambda>sql s. ((SUCCESS, Some (Table [order_id, amount]), None), Suc s))
               (\<lambda>nd s. (Some (Table [order_id]), Suc s))"

text \<open>A stand-in for \<^verbatim>\<open>replace_upstream_sql\<close> in the examples: it marks the SQL with the
  identifier of the upstream it was called for.\<close>

definition example_replace_upstream_sql :: "string \<Rightarrow> node \<Rightarrow> table \<Rightarrow> string" where
  "example_replace_upstream_sql sql upstream t = sql @ '' /* '' @ unique_id upstream @ '' */''"

definition store_succeeded :: result_store where
  "store_succeeded =
     [''model.shop.stg_orders'' \<mapsto>
        DryRunResult stg_orders (Some (Table [order_id, amount])) SUCCESS None]"

definition store_failed :: result_store where
  "store_failed =
     [''model.shop.stg_orders'' \<mapsto>
        DryRunResult stg_orders None FAILURE (Some (EngineException ''Syntax error''))]"

section \<open>Properties of the handlers\<close>

text \<open>
  C7. The Ignore handler returns a result whose table is exactly the target table; the
  node, the status and the error are those of the input result, also when the input has
  no predicted table.
\<close>

theorem ignore_handler_replaces_table:
  "ignore_handler r t = DryRunResult (node r) (Some t) (status r) (exception r)"
  by (simp add: ignore_handler_def replace_table_def)

text \<open>
  C9. The SyncAllColumns handler is the identity on its input result, for every target
  table.
\<close>

theorem sync_all_columns_handler_identity:
  "sync_all_columns_handler r t = r"
  by (simp add: sync_all_columns_handler_def)

section \<open>Dictionaries built from fields with distinct names\<close>

lemma dict_setitem_fresh:
  "k \<notin> fst ` set d \<Longrightarrow> dict_setitem d k v = d @ [(k, v)]"
  by (induction d) auto

lemma dict_setitem_keys_present:
  "k \<in> fst ` set d \<Longrightarrow> map fst (dict_setitem d k v) = map fst d"
  by (induction d) force+

lemma map_override_absent:
  "k \<notin> fst ` set d \<Longrightarrow> map (\<lambda>(k', v'). (k', if k' = k then v else v')) d = d"
  by (induction d) auto

lemma dict_setitem_present:
  "distinct (map fst d) \<Longrightarrow> k \<in> fst ` set d \<Longrightarrow>
   dict_setitem d k v = map (\<lambda>(k', v'). (k', if k' = k then v else v')) d"
proof (induction d)
  case Nil
  then show ?case by simp
next
  case (Cons p d)
  obtain k' v' where p: "p = (k', v')" by (cases p)
  show ?case
  proof (cases "k' = k")
    case True
    then have "k \<notin> fst ` set d" using Cons.prems(1) p by auto
    then show ?thesis using True p by (simp add: map_override_absent)
  next
    case False
    then have "k \<in> fst ` set d" using Cons.prems(2) p by auto
    moreover have "distinct (map fst d)" using Cons.prems(1) by simp
    ultimately show ?thesis using Cons.IH False p by simp
  qed
qed

lemma dict_of_fields_distinct:
  "distinct (map fst d @ map name fs) \<Longrightarrow>
   dict_of_fields d fs = d @ map (\<lambda>f. (name f, f)) fs"
proof (induction fs arbitrary: d)
  case Nil
  then show ?case by simp
next
  case (Cons f fs)
  have fresh: "name f \<notin> fst ` set d" using Cons.prems by auto
  have "distinct (map fst (d @ [(name f, f)]) @ map name fs)"
    using Cons.prems by auto
  then have "dict_of_fields (d @ [(name f, f)]) fs = (d @ [(name f, f)]) @ map (\<lambda>f. (name f, f)) fs"
    by (rule Cons.IH)
  then show ?case by (simp add: dict_setitem_fresh [OF fresh])
qed

lemma find_None_name: "k \<notin> name ` set tgt \<Longrightarrow> find (\<lambda>g. name g = k) tgt = None"
  by (induction tgt) auto

lemma overlay_absent:
  "name g \<notin> fst ` set d \<Longrightarrow> map (overlay (g # tgt)) d = map (overlay tgt) d"
  by (induction d) auto

lemma overlay_present:
  "name g \<notin> name ` set tgt \<Longrightarrow>
   map (overlay tgt) (map (\<lambda>(k', v'). (k', if k' = name g then g else v')) d)
     = map (overlay (g # tgt)) d"
  by (induction d) (auto simp: find_None_name)

lemma dict_update_distinct:
  "distinct (map fst d) \<Longrightarrow> distinct (map name tgt) \<Longrightarrow>
   dict_update d (map (\<lambda>g. (name g, g)) tgt) =
     map (overlay tgt) d
     @ map (\<lambda>g. (name g, g)) (filter (\<lambda>g. name g \<notin> fst ` set d) tgt)"
proof (induction tgt arbitrary: d)
  case Nil
  have "map (overlay []) d = d" by (induction d) auto
  then show ?case by simp
next
  case (Cons g tgt)
  let ?d' = "dict_setitem d (name g) g"
  let ?kv = "\<lambda>g. (name g, g)"
  have dt: "distinct (map name tgt)" and gfresh: "name g \<notin> name ` set tgt"
    using Cons.prems by auto
  have step: "dict_update d (map ?kv (g # tgt)) = dict_update ?d' (map ?kv tgt)" by simp
  show ?case
  proof (cases "name g \<in> fst ` set d")
    case True
    have dk: "distinct (map fst ?d')"
      using Cons.prems(1) by (simp add: dict_setitem_keys_present [OF True])
    have keys: "fst ` set ?d' = fst ` set d"
      using dict_setitem_keys_present [OF True, of g] by (metis list.set_map)
    have "dict_update ?d' (map ?kv tgt)
        = map (overlay tgt) ?d' @ map ?kv (filter (\<lambda>h. name h \<notin> fst ` set ?d') tgt)"
      by (rule Cons.IH [OF dk dt])
    also have "map (overlay tgt) ?d' = map (overlay (g # tgt)) d"
      by (simp only: dict_setitem_present [OF Cons.prems(1) True] overlay_present [OF gfresh])
    also have "filter (\<lambda>h. name h \<notin> fst ` set ?d') tgt
             = filter (\<lambda>h. name h \<notin> fst ` set d) (g # tgt)"
      using True by (simp add: keys)
    finally show ?thesis using step by simp
  next
    case False
    have d': "?d' = d @ [(name g, g)]" by (rule dict_setitem_fresh [OF False])
    have dk: "distinct (map fst ?d')" using Cons.prems(1) False by (simp add: d')
    have "dict_update ?d' (map ?kv tgt)
        = map (overlay tgt) ?d' @ map ?kv (filter (\<lambda>h. name h \<notin> fst ` set ?d') tgt)"
      by (rule Cons.IH [OF dk dt])
    also have "map (overlay tgt) ?d' = map (overlay (g # tgt)) d @ [(name g, g)]"
      using gfresh by (simp add: d' overlay_absent [OF False] find_None_name)
    also have "filter (\<lambda>h. name h \<notin> fst ` set ?d') tgt
             = filter (\<lambda>h. name h \<notin> fst ` set d) tgt"
    proof (rule filter_cong [OF refl])
      fix h assume "h \<in> set tgt"
      then have "name h \<noteq> name g" using gfresh by (metis imageI)
      then show "(name h \<notin> fst ` set ?d') = (name h \<notin> fst ` set d)" by (simp add: d')
    qed
    finally show ?thesis using step False by simp
  qed
qed

lemma overlay_fields:
  "map snd (map (overlay tgt) (map (\<lambda>f. (name f, f)) fs))
     = map (\<lambda>f. case find (\<lambda>g. name g = name f) tgt of None \<Rightarrow> f | Some g \<Rightarrow> g) fs"
  by (induction fs) auto

lemma append_new_columns_fields:
  assumes "distinct (map name p)" and "distinct (map name t)"
  shows "dict_values (dict_update (dict_of_fields [] p) (dict_of_fields [] t))
           = spec_append_new_columns p t"
proof -
  have p: "dict_of_fields [] p = map (\<lambda>f. (name f, f)) p"
    using assms(1) dict_of_fields_distinct [of "[]" p] by simp
  have t: "dict_of_fields [] t = map (\<lambda>f. (name f, f)) t"
    using assms(2) dict_of_fields_distinct [of "[]" t] by simp
  have dp: "distinct (map fst (map (\<lambda>f. (name f, f)) p))"
    using assms(1) by (simp add: comp_def)
  have keys: "fst ` set (map (\<lambda>f. (name f, f)) p) = set (map name p)"
    by (auto simp: image_iff)
  show ?thesis
    unfolding p t dict_values_def dict_update_distinct [OF dp assms(2)] spec_append_new_columns_def
    by (simp only: map_append overlay_fields keys) (simp add: comp_def)
qed

section \<open>AppendNewColumns\<close>

text \<open>
  C3 (amended). When the predicted table is absent, the AppendNewColumns handler returns its
  input unchanged. When it is present and the field names are pairwise distinct within the
  predicted table and within the target table, the handler returns a result whose fields
  are the predicted fields in their order, each replaced by the target field of the same
  name when the target has one, followed by the fields of the target whose name the
  predicted table does not have; the node, the status and the error are unchanged.
\<close>

theorem append_new_columns_handler_distinct_names:
  "(table r = None \<longrightarrow> append_new_columns_handler r t = r) \<and>
   (\<forall>p. table r = Some p \<and> distinct (map name (fields p)) \<and> distinct (map name (fields t)) \<longrightarrow>
      append_new_columns_handler r t =
        DryRunResult (node r) (Some (Table (spec_append_new_columns (fields p) (fields t))))
          (status r) (exception r))"
  by (simp add: append_new_columns_handler_def replace_table_def append_new_columns_fields)

text \<open>The example of section 8: predicted \<^verbatim>\<open>{a, b}\<close> against target \<^verbatim>\<open>{b, c}\<close> gives
  \<^verbatim>\<open>{a, b, c}\<close> with the definition of \<^verbatim>\<open>b\<close> taken from the target.\<close>

theorem append_new_columns_handler_distinct_names_witness:
  "append_new_columns_handler (DryRunResult fct_orders None FAILURE None) (Table [order_id])
     = DryRunResult fct_orders None FAILURE None \<and>
   append_new_columns_handler
     (DryRunResult fct_orders (Some (Table [Field ''a'' ''INT64'', Field ''b'' ''STRING''])) SUCCESS None)
     (Table [Field ''b'' ''INT64'', Field ''c'' ''DATE''])
     = DryRunResult fct_orders
         (Some (Table [Field ''a'' ''INT64'', Field ''b'' ''INT64'', Field ''c'' ''DATE'']))
         SUCCESS None"
  using append_new_columns_handler_distinct_names
          [of "DryRunResult fct_orders None FAILURE None" "Table [order_id]"]
        append_new_columns_handler_distinct_names
          [of "DryRunResult fct_orders (Some (Table [Field ''a'' ''INT64'', Field ''b'' ''STRING''])) SUCCESS None"
              "Table [Field ''b'' ''INT64'', Field ''c'' ''DATE'']"]
  by (simp add: spec_append_new_columns_def)

text \<open>
  Without the distinctness the description fails: the dictionary keyed by name keeps one
  entry for each name. A predicted table with two fields named \<^verbatim>\<open>a\<close>, reconciled against
  an empty target, comes back with the second of them only, where the description keeps
  both.
\<close>

theorem append_new_columns_handler_duplicate_names_counterexample:
  "table (append_new_columns_handler
            (DryRunResult fct_orders (Some (Table [Field ''a'' ''INT64'', Field ''a'' ''STRING'']))
               SUCCESS None)
            (Table []))
     = Some (Table [Field ''a'' ''STRING'']) \<and>
   table (append_new_columns_handler
            (DryRunResult fct_orders (Some (Table [Field ''a'' ''INT64'', Field ''a'' ''STRING'']))
               SUCCESS None)
            (Table []))
     \<noteq> Some (Table (spec_append_new_columns [Field ''a'' ''INT64'', Field ''a'' ''STRING''] []))"
  by (simp add: append_new_columns_handler_def replace_table_def dict_values_def
        spec_append_new_columns_def)

section \<open>Fail\<close>

text \<open>
  C2. For a result without a predicted table the Fail handler returns its input unchanged.
  For a result with a predicted table: when a field name of the predicted table is missing
  from the target (added) or a field name of the target is missing from the predicted
  table (removed), the handler returns a result without table, with status FAILURE and a
  \<^verbatim>\<open>SchemaChangeException\<close> whose message carries exactly the set of added names and the
  set of removed names; when the two sets of field names are equal, in whatever order the
  fields stand, it returns the target table with the status and the error of the input.
\<close>

theorem fail_handler_cases:
  "(table r = None \<longrightarrow> fail_handler r t = r) \<and>
   (\<forall>p added removed.
      table r = Some p \<and>
      added = set (map name (fields p)) - set (map name (fields t)) \<and>
      removed = set (map name (fields t)) - set (map name (fields p)) \<longrightarrow>
        (added \<noteq> {} \<or> removed \<noteq> {} \<longrightarrow>
           fail_handler r t =
             DryRunResult (node r) None FAILURE
               (Some (SchemaChangeException
                  [Lit ''Incremental model has changed schemas. '',
                   Lit ''Fields added: '', SetValue added,
                   Lit '', Fields removed: '', SetValue removed]))) \<and>
        (set (map name (fields p)) = set (map name (fields t)) \<longrightarrow>
           fail_handler r t = DryRunResult (node r) (Some t) (status r) (exception r)))"
  by (auto simp: fail_handler_def set_or_def schema_change_msg_def Let_def)

text \<open>The examples of section 8: predicted \<^verbatim>\<open>{a, b}\<close> against target \<^verbatim>\<open>{a, c}\<close>, and
  against a target with the same names in another order.\<close>

theorem fail_handler_cases_witness:
  "fail_handler (DryRunResult fct_orders None FAILURE None) (Table [order_id])
     = DryRunResult fct_orders None FAILURE None \<and>
   fail_handler
     (DryRunResult fct_orders (Some (Table [Field ''a'' ''INT64'', Field ''b'' ''STRING''])) SUCCESS None)
     (Table [Field ''a'' ''INT64'', Field ''c'' ''DATE''])
     = DryRunResult fct_orders None FAILURE
         (Some (SchemaChangeException
            [Lit ''Incremental model has changed schemas. '',
             Lit ''Fields added: '', SetValue {''b''},
             Lit '', Fields removed: '', SetValue {''c''}])) \<and>
   fail_handler
     (DryRunResult fct_orders (Some (Table [Field ''a'' ''INT64'', Field ''b'' ''STRING''])) SUCCESS None)
     (Table [Field ''b'' ''STRING'', Field ''a'' ''INT64''])
     = DryRunResult fct_orders (Some (Table [Field ''b'' ''STRING'', Field ''a'' ''INT64''])) SUCCESS None"
proof -
  have added: "set (map name [Field ''a'' ''INT64'', Field ''b'' ''STRING''])
                 - set (map name [Field ''a'' ''INT64'', Field ''c'' ''DATE'']) = {''b''}"
    by auto
  have removed: "set (map name [Field ''a'' ''INT64'', Field ''c'' ''DATE''])
                 - set (map name [Field ''a'' ''INT64'', Field ''b'' ''STRING'']) = {''c''}"
    by auto
  have same: "set (map name [Field ''a'' ''INT64'', Field ''b'' ''STRING''])
                = set (map name [Field ''b'' ''STRING'', Field ''a'' ''INT64''])"
    by auto
  show ?thesis
    using fail_handler_cases [of "DryRunResult fct_orders None FAILURE None" "Table [order_id]"]
          fail_handler_cases
            [of "DryRunResult fct_orders (Some (Table [Field ''a'' ''INT64'', Field ''b'' ''STRING''])) SUCCESS None"
                "Table [Field ''a'' ''INT64'', Field ''c'' ''DATE'']"]
          fail_handler_cases
            [of "DryRunResult fct_orders (Some (Table [Field ''a'' ''INT64'', Field ''b'' ''STRING''])) SUCCESS None"
                "Table [Field ''b'' ''STRING'', Field ''a'' ''INT64'']"]
          added removed same
    by simp
qed

section \<open>Auxiliary facts about the runner\<close>

lemma ignore_handler_node: "node (ignore_handler r t) = node r"
  by (simp add: ignore_handler_def replace_table_def)

lemma append_new_columns_handler_node: "node (append_new_columns_handler r t) = node r"
  by (simp add: append_new_columns_handler_def replace_table_def Let_def split: option.split)

lemma sync_all_columns_handler_node: "node (sync_all_columns_handler r t) = node r"
  by (simp add: sync_all_columns_handler_def)

lemma fail_handler_node: "node (fail_handler r t) = node r"
  by (simp add: fail_handler_def Let_def split: option.split)

lemmas handler_nodes =
  ignore_handler_node append_new_columns_handler_node sync_all_columns_handler_node
  fail_handler_node

lemma handler_node: "node (ON_SCHEMA_CHANGE_TABLE_HANDLER p r t) = node r"
  by (cases p) (simp_all add: handler_nodes)

lemma set_resolve_results:
  "set (resolve_results results ds) = {r. \<exists>n\<in>set ds. results n = Some r}"
  by (induction ds) (auto split: option.splits)

lemma failed_upstreams_nonempty:
  "(filter (\<lambda>r. status r \<noteq> SUCCESS) (resolve_results results ds) \<noteq> []) =
   (\<exists>n\<in>set ds. \<exists>r. results n = Some r \<and> status r \<noteq> SUCCESS)"
  by (auto simp: filter_empty_conv set_resolve_results)

lemma substitute_upstreams_foldl:
  "substitute_upstreams rus sql (filter (\<lambda>r. table r \<noteq> None) (resolve_results results ds)) =
   foldl (\<lambda>sql (u, t). rus sql u t) sql
     (List.map_filter
        (\<lambda>n. case results n of
               None \<Rightarrow> None
             | Some r \<Rightarrow> (case table r of None \<Rightarrow> None | Some t \<Rightarrow> Some (node r, t))) ds)"
  by (induction ds arbitrary: sql) (auto simp: map_filter_simps split: option.splits)

lemma no_failed_upstream_Inr:
  assumes "deep_nodes (depends_on nd) = Some ds"
      and "\<forall>n\<in>set ds. \<forall>r. results n = Some r \<longrightarrow> status r = SUCCESS"
  shows "insert_dependant_sql_literals replace_upstream_sql results nd =
           Inr (substitute_upstreams replace_upstream_sql (compiled_sql nd)
                  (filter (\<lambda>r. table r \<noteq> None) (resolve_results results ds)))"
proof -
  have "\<not> filter (\<lambda>r. status r \<noteq> SUCCESS) (resolve_results results ds) \<noteq> []"
    using assms(2) by (simp only: failed_upstreams_nonempty) blast
  then show ?thesis
    using assms(1) by (simp add: insert_dependant_sql_literals_def Let_def)
qed

lemma run_Inr:
  assumes "insert_dependant_sql_literals replace_upstream_sql results nd = Inr sql"
      and "query sr (if materialized (config nd) = ''view'' then create_view_sql nd sql else sql) s
             = ((st, pt, ex), s1)"
  shows "run replace_upstream_sql sr results nd s =
           (if st = SUCCESS \<and> materialized (config nd) = ''incremental''
            then (case fst (get_node_schema sr nd s1) of
                    None \<Rightarrow> Inr (DryRunResult nd pt st ex)
                  | Some tt \<Rightarrow>
                      Inr (ON_SCHEMA_CHANGE_TABLE_HANDLER
                             (case on_schema_change (config nd) of None \<Rightarrow> IGNORE | Some p \<Rightarrow> p)
                             (DryRunResult nd pt st ex) tt),
                  [Query (if materialized (config nd) = ''view'' then create_view_sql nd sql else sql),
                   GetNodeSchema nd],
                  snd (get_node_schema sr nd s1))
            else (Inr (DryRunResult nd pt st ex),
                  [Query (if materialized (config nd) = ''view'' then create_view_sql nd sql else sql)],
                  s1))"
  using assms
  by (cases "get_node_schema sr nd s1")
     (simp add: run_def Let_def split: option.split)

lemma create_view_sql_neq: "create_view_sql nd sql \<noteq> sql"
proof
  assume "create_view_sql nd sql = sql"
  then have "length (create_view_sql nd sql) = length sql" by simp
  then show False by (simp add: create_view_sql_def)
qed

section \<open>Failure of an upstream\<close>

text \<open>
  C1. When \<^verbatim>\<open>deep_nodes\<close> is set and one of its identifiers is in the result store with a
  result whose status is not SUCCESS, \<^verbatim>\<open>run\<close> returns a result for the node with no table,
  status FAILURE and an \<^verbatim>\<open>UpstreamFailedException\<close> whose message carries the identifier of
  the node and the list of the identifiers of all failed resolved upstreams, in the order
  of \<^verbatim>\<open>deep_nodes\<close>; no call reaches the \<^verbatim>\<open>SqlRunner\<close>, whose state is untouched.
\<close>

theorem run_upstream_failed:
  assumes "deep_nodes (depends_on nd) = Some ds"
      and "\<exists>n\<in>set ds. \<exists>r. results n = Some r \<and> status r \<noteq> SUCCESS"
  shows "run replace_upstream_sql sr results nd s =
           (Inr (DryRunResult nd None FAILURE
                   (Some (UpstreamFailedException
                      [Lit (''Can'' @ [CHR 0x27] @ ''t insert SELECT literals for ''),
                       StrValue (unique_id nd), Lit '' because '',
                       ListValue (map (\<lambda>f. unique_id (node f))
                                    (filter (\<lambda>r. status r \<noteq> SUCCESS) (resolve_results results ds))),
                       Lit '' failed'']))),
            [], s)"
proof -
  have "filter (\<lambda>r. status r \<noteq> SUCCESS) (resolve_results results ds) \<noteq> []"
    using assms(2) by (simp only: failed_upstreams_nonempty)
  then have "insert_dependant_sql_literals replace_upstream_sql results nd =
          Inl (UpstreamFailedException (upstream_failed_msg nd
                 (filter (\<lambda>r. status r \<noteq> SUCCESS) (resolve_results results ds))))"
    using assms(1) by (simp add: insert_dependant_sql_literals_def Let_def)
  then show ?thesis by (simp add: run_def upstream_failed_msg_def)
qed

theorem run_upstream_failed_witness:
  "run example_replace_upstream_sql example_sql_runner store_failed fct_orders (0::nat) =
     (Inr (DryRunResult fct_orders None FAILURE
             (Some (UpstreamFailedException
                [Lit (''Can'' @ [CHR 0x27] @ ''t insert SELECT literals for ''),
                 StrValue ''model.shop.fct_orders'', Lit '' because '',
                 ListValue [''model.shop.stg_orders''], Lit '' failed'']))),
      [], 0)"
proof -
  have dn: "deep_nodes (depends_on fct_orders) = Some [''model.shop.stg_orders'', ''model.shop.not_run'']"
    by (simp add: fct_orders_def)
  have failed: "\<exists>n\<in>set [''model.shop.stg_orders'', ''model.shop.not_run''].
                  \<exists>r. store_failed n = Some r \<and> status r \<noteq> SUCCESS"
    by (simp add: store_failed_def)
  have look: "store_failed ''model.shop.stg_orders''
                = Some (DryRunResult stg_orders None FAILURE (Some (EngineException ''Syntax error'')))"
             "store_failed ''model.shop.not_run'' = None"
    by (simp_all add: store_failed_def)
  have ids: "unique_id fct_orders = ''model.shop.fct_orders''"
            "unique_id stg_orders = ''model.shop.stg_orders''"
    by (simp_all add: fct_orders_def stg_orders_def)
  show ?thesis
    using run_upstream_failed [OF dn failed, of example_replace_upstream_sql example_sql_runner 0]
    by (simp add: look ids)
qed

section \<open>Missing dependency graph\<close>

text \<open>
  C5. When \<^verbatim>\<open>deep_nodes\<close> is unset, the substitution step raises, before any SQL is built,
  the \<^verbatim>\<open>KeyError\<close> that tells that the dependency graph of the node is missing (the spec's
  MissingDependencyGraphError); \<^verbatim>\<open>run\<close> does not catch it, so it leaves \<^verbatim>\<open>run\<close> with no
  call made to the \<^verbatim>\<open>SqlRunner\<close>.
\<close>

theorem run_missing_deep_nodes:
  assumes "deep_nodes (depends_on nd) = None"
  shows "insert_dependant_sql_literals replace_upstream_sql results nd =
           Inl (KeyError [Lit ''deep_nodes have not been created for '', StrValue (unique_id nd)])
       \<and> run replace_upstream_sql sr results nd s =
           (Inl (KeyError [Lit ''deep_nodes have not been created for '', StrValue (unique_id nd)]),
            [], s)"
  using assms by (simp add: run_def insert_dependant_sql_literals_def missing_deep_nodes_msg_def)

theorem run_missing_deep_nodes_witness:
  "run example_replace_upstream_sql example_sql_runner store_succeeded
     (fct_orders\<lparr>depends_on := \<lparr>deep_nodes = None\<rparr>\<rparr>) (0::nat) =
     (Inl (KeyError [Lit ''deep_nodes have not been created for '',
                     StrValue ''model.shop.fct_orders'']), [], 0)"
proof -
  have dn: "deep_nodes (depends_on (fct_orders\<lparr>depends_on := \<lparr>deep_nodes = None\<rparr>\<rparr>)) = None"
    by simp
  have ids: "unique_id fct_orders = ''model.shop.fct_orders''"
    by (simp add: fct_orders_def)
  show ?thesis
    using run_missing_deep_nodes [OF dn, of example_replace_upstream_sql store_succeeded
            example_sql_runner 0]
    by (simp add: ids)
qed

section \<open>Substitution of the upstream literals\<close>

text \<open>
  C6. When \<^verbatim>\<open>deep_nodes\<close> is set and no resolved upstream has failed, the SQL that the
  substitution step returns is the left fold of \<^verbatim>\<open>replace_upstream_sql\<close>, starting from the
  compiled SQL of the node, over the upstream results that are in the result store and
  have a table, in the order of \<^verbatim>\<open>deep_nodes\<close>; identifiers that are not in the store and
  results without table are skipped.
\<close>

theorem insert_dependant_sql_literals_foldl:
  assumes "deep_nodes (depends_on nd) = Some ds"
      and "\<forall>n\<in>set ds. \<forall>r. results n = Some r \<longrightarrow> status r = SUCCESS"
  shows "insert_dependant_sql_literals replace_upstream_sql results nd =
           Inr (foldl (\<lambda>sql (upstream, t). replace_upstream_sql sql upstream t) (compiled_sql nd)
                  (List.map_filter
                     (\<lambda>n. case results n of
                            None \<Rightarrow> None
                          | Some r \<Rightarrow> (case table r of None \<Rightarrow> None | Some t \<Rightarrow> Some (node r, t)))
                     ds))"
  using no_failed_upstream_Inr [OF assms, of replace_upstream_sql]
  by (simp only: substitute_upstreams_foldl)

theorem insert_dependant_sql_literals_foldl_witness:
  "insert_dependant_sql_literals example_replace_upstream_sql store_succeeded fct_orders =
     Inr ''SELECT * FROM stg_orders /* model.shop.stg_orders */''"
proof -
  have dn: "deep_nodes (depends_on fct_orders) = Some [''model.shop.stg_orders'', ''model.shop.not_run'']"
    by (simp add: fct_orders_def)
  have ok: "\<forall>n\<in>set [''model.shop.stg_orders'', ''model.shop.not_run''].
              \<forall>r. store_succeeded n = Some r \<longrightarrow> status r = SUCCESS"
    by (simp add: store_succeeded_def)
  have look: "store_succeeded ''model.shop.stg_orders''
                = Some (DryRunResult stg_orders (Some (Table [order_id, amount])) SUCCESS None)"
             "store_succeeded ''model.shop.not_run'' = None"
    by (simp_all add: store_succeeded_def)
  have vals: "compiled_sql fct_orders = ''SELECT * FROM stg_orders''"
             "unique_id stg_orders = ''model.shop.stg_orders''"
    by (simp_all add: fct_orders_def stg_orders_def)
  show ?thesis
    using insert_dependant_sql_literals_foldl [OF dn ok, of example_replace_upstream_sql]
    by (simp add: map_filter_simps look vals example_replace_upstream_sql_def)
qed

section \<open>The SQL sent to the engine\<close>

text \<open>
  C8. When \<^verbatim>\<open>deep_nodes\<close> is set and no resolved upstream has failed, the substitution
  step returns some SQL \<open>sql\<close>, and the first call of \<^verbatim>\<open>run\<close> to the \<^verbatim>\<open>SqlRunner\<close> is the
  only query: its SQL is \<open>sql\<close> wrapped in \<^verbatim>\<open>CREATE OR REPLACE VIEW\<close> with the backquoted
  database, schema and alias of the node when the node is materialized as \<^verbatim>\<open>view\<close>, and
  \<open>sql\<close> itself for every other materialization; the wrapped SQL is never \<open>sql\<close> itself.
\<close>

theorem run_query_sql:
  assumes "deep_nodes (depends_on nd) = Some ds"
      and "\<forall>n\<in>set ds. \<forall>r. results n = Some r \<longrightarrow> status r = SUCCESS"
  shows "\<exists>sql rest.
           insert_dependant_sql_literals replace_upstream_sql results nd = Inr sql \<and>
           fst (snd (run replace_upstream_sql sr results nd s)) =
             Query (if materialized (config nd) = ''view''
                    then ''CREATE OR REPLACE VIEW '' @ [CHR 0x60] @ database nd @ [CHR 0x60]
                         @ ''.'' @ [CHR 0x60] @ db_schema nd @ [CHR 0x60]
                         @ ''.'' @ [CHR 0x60] @ node_alias nd @ [CHR 0x60]
                         @ '' AS ('' @ [CHR 0x0A] @ sql @ [CHR 0x0A] @ '')''
                    else sql) # rest \<and>
           set rest \<subseteq> {GetNodeSchema nd} \<and>
           create_view_sql nd sql \<noteq> sql"
proof -
  obtain sql where sql: "insert_dependant_sql_literals replace_upstream_sql results nd = Inr sql"
    using no_failed_upstream_Inr [OF assms] by blast
  let ?q = "if materialized (config nd) = ''view'' then create_view_sql nd sql else sql"
  obtain st pt ex s1 where q: "query sr ?q s = ((st, pt, ex), s1)"
    by (metis prod.exhaust)
  have "\<exists>rest. fst (snd (run replace_upstream_sql sr results nd s)) = Query ?q # rest
          \<and> set rest \<subseteq> {GetNodeSchema nd}"
    unfolding run_Inr [OF sql q] by (simp split: option.split)
  then obtain rest
    where rest: "fst (snd (run replace_upstream_sql sr results nd s)) = Query ?q # rest"
                "set rest \<subseteq> {GetNodeSchema nd}"
    by blast
  have wrapped: "''CREATE OR REPLACE VIEW '' @ [CHR 0x60] @ database nd @ [CHR 0x60]
                @ ''.'' @ [CHR 0x60] @ db_schema nd @ [CHR 0x60]
                @ ''.'' @ [CHR 0x60] @ node_alias nd @ [CHR 0x60]
                @ '' AS ('' @ [CHR 0x0A] @ sql @ [CHR 0x0A] @ '')''
              = create_view_sql nd sql"
    by (simp add: create_view_sql_def backquoted_def)
  show ?thesis
  proof (intro exI conjI)
    show "insert_dependant_sql_literals replace_upstream_sql results nd = Inr sql"
      by (rule sql)
    show "fst (snd (run replace_upstream_sql sr results nd s)) =
            Query (if materialized (config nd) = ''view''
                   then ''CREATE OR REPLACE VIEW '' @ [CHR 0x60] @ database nd @ [CHR 0x60]
                        @ ''.'' @ [CHR 0x60] @ db_schema nd @ [CHR 0x60]
                        @ ''.'' @ [CHR 0x60] @ node_alias nd @ [CHR 0x60]
                        @ '' AS ('' @ [CHR 0x0A] @ sql @ [CHR 0x0A] @ '')''
                   else sql) # rest"
      unfolding wrapped by (rule rest(1))
    show "set rest \<subseteq> {GetNodeSchema nd}" by (rule rest(2))
    show "create_view_sql nd sql \<noteq> sql" by (rule create_view_sql_neq)
  qed
qed

theorem run_query_sql_witness:
  "(\<exists>rest. fst (snd (run example_replace_upstream_sql example_sql_runner store_succeeded
                        stg_orders (0::nat))) =
      Query (''CREATE OR REPLACE VIEW '' @ [CHR 0x60] @ ''analytics'' @ [CHR 0x60]
             @ ''.'' @ [CHR 0x60] @ ''staging'' @ [CHR 0x60]
             @ ''.'' @ [CHR 0x60] @ ''stg_orders'' @ [CHR 0x60]
             @ '' AS ('' @ [CHR 0x0A] @ ''SELECT order_id, amount FROM raw.orders''
             @ [CHR 0x0A] @ '')'') # rest) \<and>
   (\<exists>rest. fst (snd (run example_replace_upstream_sql example_sql_runner store_succeeded
                        fct_orders (0::nat))) =
      Query ''SELECT * FROM stg_orders /* model.shop.stg_orders */'' # rest)"
proof -
  have dn: "deep_nodes (depends_on stg_orders) = Some []"
           "deep_nodes (depends_on fct_orders) = Some [''model.shop.stg_orders'', ''model.shop.not_run'']"
    by (simp_all add: stg_orders_def fct_orders_def)
  have ok: "\<forall>n\<in>set []. \<forall>r. store_succeeded n = Some r \<longrightarrow> status r = SUCCESS"
           "\<forall>n\<in>set [''model.shop.stg_orders'', ''model.shop.not_run''].
              \<forall>r. store_succeeded n = Some r \<longrightarrow> status r = SUCCESS"
    by (simp_all add: store_succeeded_def)
  have stg: "insert_dependant_sql_literals example_replace_upstream_sql store_succeeded stg_orders
               = Inr ''SELECT order_id, amount FROM raw.orders''"
    by (simp add: insert_dependant_sql_literals_def stg_orders_def)
  have fct: "insert_dependant_sql_literals example_replace_upstream_sql store_succeeded fct_orders
               = Inr ''SELECT * FROM stg_orders /* model.shop.stg_orders */''"
    by (simp add: insert_dependant_sql_literals_def fct_orders_def stg_orders_def
          store_succeeded_def example_replace_upstream_sql_def)
  have vals: "materialized (config stg_orders) = ''view''" "database stg_orders = ''analytics''"
             "db_schema stg_orders = ''staging''" "node_alias stg_orders = ''stg_orders''"
             "materialized (config fct_orders) = ''incremental''"
    by (simp_all add: stg_orders_def fct_orders_def)
  show ?thesis
    using run_query_sql [OF dn(1) ok(1), of example_replace_upstream_sql example_sql_runner 0]
          run_query_sql [OF dn(2) ok(2), of example_replace_upstream_sql example_sql_runner 0]
    by (simp add: vals stg fct) blast
qed

section \<open>When the reconciliation applies\<close>

text \<open>
  C4. Let the substitution step succeed, let the query answer with the status \<open>st\<close>, the
  table \<open>pt\<close> and the error \<open>ex\<close>, and let \<open>target\<close> be what \<^verbatim>\<open>get_node_schema\<close> answers
  after it. When \<open>st\<close> is SUCCESS, the node is materialized as \<^verbatim>\<open>incremental\<close> and
  \<open>target\<close> is a table, \<^verbatim>\<open>run\<close> returns the base result reconciled by the handler of the
  node's \<^verbatim>\<open>on_schema_change\<close> policy, which is the Ignore handler when the policy is unset.
  In every other case \<^verbatim>\<open>run\<close> returns the base result unchanged.
\<close>

theorem run_reconciliation:
  assumes "insert_dependant_sql_literals replace_upstream_sql results nd = Inr sql"
      and "query sr (if materialized (config nd) = ''view'' then create_view_sql nd sql else sql) s
             = ((st, pt, ex), s1)"
      and "get_node_schema sr nd s1 = (target, s2)"
  shows "(\<forall>tt. st = SUCCESS \<and> materialized (config nd) = ''incremental'' \<and> target = Some tt \<longrightarrow>
            fst (run replace_upstream_sql sr results nd s) =
              Inr ((case on_schema_change (config nd) of
                      None \<Rightarrow> ignore_handler
                    | Some p \<Rightarrow> ON_SCHEMA_CHANGE_TABLE_HANDLER p) (DryRunResult nd pt st ex) tt))
       \<and> (\<not> (st = SUCCESS \<and> materialized (config nd) = ''incremental'' \<and> target \<noteq> None) \<longrightarrow>
            fst (run replace_upstream_sql sr results nd s) = Inr (DryRunResult nd pt st ex))"
  unfolding run_Inr [OF assms(1,2)] using assms(3)
  by (auto split: option.splits)

theorem run_reconciliation_witness:
  "fst (run example_replace_upstream_sql example_sql_runner store_succeeded fct_orders (0::nat)) =
     Inr (DryRunResult fct_orders (Some (Table [order_id, amount])) SUCCESS None) \<and>
   fst (run example_replace_upstream_sql example_sql_runner store_succeeded
          (fct_orders\<lparr>config := \<lparr>materialized = ''incremental'', on_schema_change = None\<rparr>\<rparr>)
          (0::nat)) =
     Inr (DryRunResult
            (fct_orders\<lparr>config := \<lparr>materialized = ''incremental'', on_schema_change = None\<rparr>\<rparr>)
            (Some (Table [order_id])) SUCCESS None) \<and>
   fst (run example_replace_upstream_sql example_sql_runner store_succeeded stg_orders (0::nat)) =
     Inr (DryRunResult stg_orders (Some (Table [order_id, amount])) SUCCESS None)"
proof -
  let ?unset = "fct_orders\<lparr>config := \<lparr>materialized = ''incremental'', on_schema_change = None\<rparr>\<rparr>"
  have stg: "insert_dependant_sql_literals example_replace_upstream_sql store_succeeded stg_orders
               = Inr ''SELECT order_id, amount FROM raw.orders''"
    by (simp add: insert_dependant_sql_literals_def stg_orders_def)
  have fct: "insert_dependant_sql_literals example_replace_upstream_sql store_succeeded fct_orders
               = Inr ''SELECT * FROM stg_orders /* model.shop.stg_orders */''"
    by (simp add: insert_dependant_sql_literals_def fct_orders_def stg_orders_def
          store_succeeded_def example_replace_upstream_sql_def)
  have unset: "insert_dependant_sql_literals example_replace_upstream_sql store_succeeded ?unset
               = Inr ''SELECT * FROM stg_orders /* model.shop.stg_orders */''"
    by (simp add: insert_dependant_sql_literals_def fct_orders_def stg_orders_def
          store_succeeded_def example_replace_upstream_sql_def)
  have q: "query example_sql_runner sql (0::nat)
             = ((SUCCESS, Some (Table [order_id, amount]), None), 1)" for sql
    by (simp add: example_sql_runner_def)
  have g: "get_node_schema example_sql_runner nd (1::nat) = (Some (Table [order_id]), 2)" for nd
    by (simp add: example_sql_runner_def)
  have vals: "materialized (config stg_orders) = ''view''"
             "materialized (config fct_orders) = ''incremental''"
             "on_schema_change (config fct_orders) = Some APPEND_NEW_COLUMNS"
    by (simp_all add: stg_orders_def fct_orders_def)
  have merged: "append_new_columns_handler
                  (DryRunResult fct_orders (Some (Table [order_id, amount])) SUCCESS None)
                  (Table [order_id])
                = DryRunResult fct_orders (Some (Table [order_id, amount])) SUCCESS None"
    by (simp add: append_new_columns_handler_def replace_table_def dict_values_def
          order_id_def amount_def)
  show ?thesis
    using run_reconciliation [OF fct q g] run_reconciliation [OF unset q g]
          run_reconciliation [OF stg q g]
    by (simp add: vals merged ignore_handler_def replace_table_def)
qed

section \<open>The node of the result\<close>

text \<open>
  C10. Each of the four handlers returns a result with the node of its input result, and
  every result that \<^verbatim>\<open>run\<close> returns for a node has that node as its node, whatever the
  \<^verbatim>\<open>SqlRunner\<close> and the result store do.
\<close>

theorem run_result_node:
  "node (ignore_handler r t) = node r \<and>
   node (append_new_columns_handler r t) = node r \<and>
   node (sync_all_columns_handler r t) = node r \<and>
   node (fail_handler r t) = node r \<and>
   (\<forall>res. fst (run replace_upstream_sql sr results nd s) = Inr res \<longrightarrow> node res = nd)"
proof -
  have run: "node res = nd" if res: "fst (run replace_upstream_sql sr results nd s) = Inr res" for res
  proof (cases "insert_dependant_sql_literals replace_upstream_sql results nd")
    case (Inl e)
    then show ?thesis using res by (cases e) (auto simp: run_def)
  next
    case (Inr sql)
    obtain st pt ex s1
      where q: "query sr (if materialized (config nd) = ''view''
                           then create_view_sql nd sql else sql) s = ((st, pt, ex), s1)"
      by (metis prod.exhaust)
    show ?thesis
      using res unfolding run_Inr [OF Inr q]
      by (auto simp: handler_node handler_nodes split: if_splits option.splits)
  qed
  show ?thesis
    using run by (simp add: handler_nodes)
qed

theorem run_result_node_witness:
  "(\<exists>res. fst (run example_replace_upstream_sql example_sql_runner store_succeeded fct_orders
                   (0::nat)) = Inr res \<and> node res = fct_orders) \<and>
   node (fail_handler (DryRunResult fct_orders (Some (Table [order_id, amount])) SUCCESS None)
           (Table [order_id])) = fct_orders"
proof -
  have r: "fst (run example_replace_upstream_sql example_sql_runner store_succeeded fct_orders
                  (0::nat)) =
             Inr (DryRunResult fct_orders (Some (Table [order_id, amount])) SUCCESS None)"
    by (simp add: run_def insert_dependant_sql_literals_def fct_orders_def stg_orders_def
          store_succeeded_def example_replace_upstream_sql_def example_sql_runner_def
          append_new_columns_handler_def replace_table_def dict_values_def
          order_id_def amount_def Let_def)
  show ?thesis
    using r run_result_node
            [of "DryRunResult fct_orders (Some (Table [order_id, amount])) SUCCESS None"
                "Table [order_id]" example_replace_upstream_sql example_sql_runner store_succeeded
                fct_orders 0]
    by simp
qed

end
